theory Spec2Isabelle
  imports Complex_Main
begin

section \<open>Solar axion flux: the integration engine of spectral_flux.cpp\<close>

text \<open>
  A shallow embedding of \<^verbatim>\<open>src/src/spectral_flux.cpp\<close>. The C++ computes in
  \<^verbatim>\<open>double\<close>. A result that stays a \<^verbatim>\<open>double\<close> is modelled in \<^typ>\<open>real\<close>, without
  rounding, infinities or NaN: HOL's division and root are total (\<open>x / 0 = 0\<close>) where IEEE
  arithmetic returns an infinity or NaN, and a theorem below either equates two expressions
  that divide alike, or carries the precondition that keeps the divisor away from zero.
  Where a \<^verbatim>\<open>double\<close> is converted to an integer, the count of grid points of the
  Monte-Carlo generator, the integer depends on the rounding, and the model rounds as
  IEEE 754 binary64 does. \<^verbatim>\<open>int\<close> is the 32-bit signed integer of the platforms the
  library builds on; what C++ leaves undefined is an error value.
\<close>

subsection \<open>Errors\<close>

datatype error =
    RangeError            \<comment> \<open>\<^verbatim>\<open>terminate_with_error\<close>: bounds outside the tabulated domain\<close>
  | UndefinedBehaviour    \<comment> \<open>a conversion or an index the C++ standard leaves undefined\<close>
  | LengthError           \<comment> \<open>\<^verbatim>\<open>std::vector\<close> asked for a negative number of entries\<close>

subsection \<open>External collaborators\<close>

text \<open>
  Modelled from the spec: the opacity-dataset tag of the solar model. Its declaration is
  in \<^verbatim>\<open>solar_model.hpp\<close>, which is not among the sources; the spec lists the four
  codes OP / OPAS / LEDCOP / ATOMIC.
\<close>

datatype opacitycode = OP | OPAS | LEDCOP | ATOMIC

text \<open>
  The solar model is read-only during integration. Its accessors are fields of the
  record, so every theorem holds for every solar model. The C++ overloads
  \<^verbatim>\<open>Gamma_P_opacity\<close> on the number of arguments: \<open>Gamma_P_opacity_el\<close> is the overload
  with an element name, \<open>Gamma_P_opacity\<close> the aggregate one.
\<close>

record SolarModel =
  r_lo :: real
  r_hi :: real
  opcode :: opacitycode
  temperature_in_keV :: "real \<Rightarrow> real"
  Gamma_P_Primakoff :: "real \<Rightarrow> real \<Rightarrow> real"
  Gamma_P_Compton :: "real \<Rightarrow> real \<Rightarrow> real"
  Gamma_P_opacity_el :: "real \<Rightarrow> real \<Rightarrow> string \<Rightarrow> real"
  Gamma_P_opacity :: "real \<Rightarrow> real \<Rightarrow> real"
  Gamma_P_ff :: "real \<Rightarrow> real \<Rightarrow> real"
  Gamma_P_ee :: "real \<Rightarrow> real \<Rightarrow> real"
  Gamma_P_all_electron :: "real \<Rightarrow> real \<Rightarrow> real"

record Isotope =
  iso_name :: string   \<comment> \<open>\<^verbatim>\<open>Isotope::name()\<close>\<close>

text \<open>
  The named constants of \<^verbatim>\<open>constants.hpp\<close> (not among the sources) are parameters:
  physical constants, quadrature tolerances and budgets, and the table of opacity
  elements.
\<close>

record constants =
  radius_sol :: real
  keV2cm :: real
  distance_sol :: real
  hbar :: real
  int_abs_prec :: real
  int_rel_prec :: real
  abs_prec2 :: real
  rel_prec2 :: real
  int_space_size :: nat
  int_method_1 :: int
  int_method_2 :: int
  num_op_elements :: nat
  op_element_names :: "string list"

text \<open>
  The quadrature routines of the GNU Scientific Library are parameters as well. Each takes
  the integrand, the bounds (for \<^verbatim>\<open>qagp\<close> the list of break points), the tolerances
  and, where the routine has them, the subdivision limit and the rule key; each returns
  the estimate first and the error estimate second (\<^verbatim>\<open>cquad\<close> also the number of
  evaluations). Workspaces are scratch memory and are not modelled.
\<close>

record gsl =
  gsl_integration_qag ::
    "(real \<Rightarrow> real) \<Rightarrow> real \<Rightarrow> real \<Rightarrow> real \<Rightarrow> real \<Rightarrow> nat \<Rightarrow> int \<Rightarrow> real \<times> real"
  gsl_integration_cquad ::
    "(real \<Rightarrow> real) \<Rightarrow> real \<Rightarrow> real \<Rightarrow> real \<Rightarrow> real \<Rightarrow> real \<times> real \<times> nat"
  gsl_integration_qagp ::
    "(real \<Rightarrow> real) \<Rightarrow> real list \<Rightarrow> real \<Rightarrow> real \<Rightarrow> nat \<Rightarrow> real \<times> real"

definition gsl_pow_2 :: "real \<Rightarrow> real" where
  "gsl_pow_2 x = x * x"

definition gsl_expm1 :: "real \<Rightarrow> real" where
  "gsl_expm1 x = exp x - 1"

text \<open>The one-dimensional interpolator over a tabulated spectrum, as it is consumed.\<close>

record OneDInterpolator =
  interpolate :: "real \<Rightarrow> real"
  lower :: real
  upper :: real

text \<open>
  Modelled from the spec: \<^verbatim>\<open>terminate_with_error\<close> is defined outside the sources.
  The spec has the operation end at once with a RangeError and return no result.
\<close>

definition terminate_with_error :: "error + 'a" where
  "terminate_with_error = Inl RangeError"

subsection \<open>Parameter bundles\<close>

text \<open>
  The C++ structs reuse field names (\<^verbatim>\<open>erg\<close>, \<^verbatim>\<open>sol\<close>, \<^verbatim>\<open>integrand\<close>, ...) that
  are also names of locals and arguments; a record field is a constant, so each field
  carries the initials of its struct: \<open>ip_\<close> for \<^verbatim>\<open>integration_params\<close>, \<open>ip2_\<close> for
  \<^verbatim>\<open>integration_params2\<close>, \<open>sd_\<close> for \<^verbatim>\<open>solar_disc_integration_params\<close>.
\<close>

record integration_params =
  ip_erg :: real
  ip_sol :: SolarModel
  ip_isotope :: Isotope

record integration_params2 =
  ip2_sol :: SolarModel
  ip2_integrand :: "real \<Rightarrow> integration_params \<Rightarrow> real"
  ip2_isotope :: Isotope

text \<open>
  The process selector of the disc integrator is a pointer to a member function of the
  solar model, \<^verbatim>\<open>double (SolarModel::*)(double, double)\<close>: a function of the model,
  the energy and the radius, such as \<^const>\<open>Gamma_P_Primakoff\<close>.
\<close>

record solar_disc_integration_params =
  sd_erg :: real
  sd_rad :: real
  sd_r_max :: real
  sd_s :: SolarModel
  sd_integrand :: "SolarModel \<Rightarrow> real \<Rightarrow> real \<Rightarrow> real"

subsection \<open>Integrands\<close>

definition integrand_Primakoff :: "real \<Rightarrow> integration_params \<Rightarrow> real" where
  "integrand_Primakoff r p =
     (let erg = ip_erg p;
          sol = ip_sol p
      in 0.5 * gsl_pow_2 (r * erg / pi) * Gamma_P_Primakoff sol erg r)"

definition integrand_Compton :: "real \<Rightarrow> integration_params \<Rightarrow> real" where
  "integrand_Compton r p =
     (let erg = ip_erg p;
          sol = ip_sol p
      in 0.5 * gsl_pow_2 (r * erg / pi) * Gamma_P_Compton sol erg r)"

definition integrand_weightedCompton :: "real \<Rightarrow> integration_params \<Rightarrow> real" where
  "integrand_weightedCompton r p =
     (let erg = ip_erg p
      in if erg = 0 then 0
         else
           (let sol = ip_sol p;
                u = erg / temperature_in_keV sol r
            in 0.5 * gsl_pow_2 (r * erg / pi) * 0.5 * (1.0 - 1.0 / gsl_expm1 u)
                 * Gamma_P_Compton sol erg r))"

definition integrand_opacity_element :: "real \<Rightarrow> integration_params \<Rightarrow> real" where
  "integrand_opacity_element r p =
     (let erg = ip_erg p;
          el_name = iso_name (ip_isotope p);
          sol = ip_sol p
      in 0.5 * gsl_pow_2 (r * erg / pi) * Gamma_P_opacity_el sol erg r el_name)"

text \<open>
  The loop of \<^verbatim>\<open>integrand_opacity\<close>:
  \<^verbatim>\<open>for (int k = 2; k < num_op_elements; k++) { element_contrib += ...[k]; }\<close>
\<close>

function opacity_element_loop ::
  "constants \<Rightarrow> SolarModel \<Rightarrow> real \<Rightarrow> real \<Rightarrow> nat \<Rightarrow> real \<Rightarrow> real" where
  "opacity_element_loop c sol erg r k element_contrib =
     (if k < num_op_elements c
      then opacity_element_loop c sol erg r (k + 1)
             (element_contrib + Gamma_P_opacity_el sol erg r (op_element_names c ! k))
      else element_contrib)"
  by pat_completeness auto
termination
  by (relation "measure (\<lambda>(c, sol, erg, r, k, acc). num_op_elements c - k)") auto

declare opacity_element_loop.simps [simp del]

definition integrand_opacity :: "constants \<Rightarrow> real \<Rightarrow> integration_params \<Rightarrow> real" where
  "integrand_opacity c r p =
     (let result = 0.0;
          erg = ip_erg p;
          sol = ip_sol p;
          result =
            (if opcode sol = OP
             then (let element_contrib = opacity_element_loop c sol erg r 2 0.0
                   in 0.5 * gsl_pow_2 (r * erg / pi) * element_contrib)
             else result);
          result =
            (if opcode sol = OPAS \<or> opcode sol = LEDCOP \<or> opcode sol = ATOMIC
             then 0.5 * gsl_pow_2 (r * erg / pi) * Gamma_P_opacity sol erg r
             else result)
      in result)"

definition integrand_all_ff :: "real \<Rightarrow> integration_params \<Rightarrow> real" where
  "integrand_all_ff r p =
     (let erg = ip_erg p;
          sol = ip_sol p
      in 0.5 * gsl_pow_2 (r * erg / pi) * (Gamma_P_ff sol erg r + Gamma_P_ee sol erg r))"

definition integrand_all_axionelectron :: "real \<Rightarrow> integration_params \<Rightarrow> real" where
  "integrand_all_axionelectron r p =
     (let erg = ip_erg p;
          sol = ip_sol p
      in 0.5 * gsl_pow_2 (r * erg / pi) * Gamma_P_all_electron sol erg r)"

subsection \<open>The dimensional scale factor\<close>

definition factor :: "constants \<Rightarrow> real" where
  "factor c =
     (radius_sol c / (0.01 * keV2cm c)) ^ 3
       / ((100 * distance_sol c) ^ 2 * (1000000 * hbar c))"

subsection \<open>The disc integrator\<close>

definition rho_integrand :: "real \<Rightarrow> solar_disc_integration_params \<Rightarrow> real" where
  "rho_integrand rho p1 =
     (let erg = sd_erg p1;
          rad = sd_rad p1;
          s = sd_s p1;
          norm_factor1 = 1.0;
          cylinder = rho * rho - rad * rad;
          cylinder = rho / sqrt cylinder
      in cylinder * gsl_pow_2 (0.5 * erg / pi) * (sd_integrand p1) s erg rho / norm_factor1)"

text \<open>
  \<^verbatim>\<open>rad_integrand\<close> stores the impact parameter in the shared bundle before the inner
  quadrature reads it through \<^verbatim>\<open>rho_integrand\<close>. The store comes before every read
  of the field, so the inner integrand is \<^const>\<open>rho_integrand\<close> on the updated bundle.
\<close>

definition rad_integrand ::
  "gsl \<Rightarrow> constants \<Rightarrow> real \<Rightarrow> solar_disc_integration_params \<Rightarrow> real" where
  "rad_integrand g c rad p2 =
     (let p2 = p2\<lparr>sd_rad := rad\<rparr>;
          s = sd_s p2;
          r_max = min (sd_r_max p2) (r_hi s);
          (result, error, n_evals) =
             gsl_integration_cquad g (\<lambda>rho. rho_integrand rho p2) rad r_max
               (0.1 * int_abs_prec c) (0.1 * int_rel_prec c);
          result = rad * result
      in result)"

text \<open>
  The loop over the energies:
  \<^verbatim>\<open>for (int i=0; i<ergs.size(); ++i) { p2.erg = ergs[i]; ...; results.push_back(...); }\<close>
\<close>

fun solar_disc_loop ::
  "gsl \<Rightarrow> constants \<Rightarrow> real \<Rightarrow> real \<Rightarrow> solar_disc_integration_params \<Rightarrow> real list
     \<Rightarrow> real list \<Rightarrow> real list" where
  "solar_disc_loop g c r_min r_max p2 [] results = results"
| "solar_disc_loop g c r_min r_max p2 (e # ergs) results =
     (let norm_factor1 = 1.0;
          p2 = p2\<lparr>sd_erg := e\<rparr>;
          (integral, error) =
             gsl_integration_qag g (\<lambda>rad. rad_integrand g c rad p2) r_min r_max
               (int_abs_prec c) (int_rel_prec c) (int_space_size c) (int_method_1 c)
      in solar_disc_loop g c r_min r_max p2 ergs
           (results @ [factor c * norm_factor1 * integral]))"

text \<open>
  Writing the table to \<^verbatim>\<open>saveas\<close> is an effect on the file system only; the returned
  sequence does not depend on it, and the model returns the sequence.
\<close>

definition calculate_spectral_flux_solar_disc ::
  "gsl \<Rightarrow> constants \<Rightarrow> real list \<Rightarrow> Isotope \<Rightarrow> real \<Rightarrow> SolarModel
     \<Rightarrow> (SolarModel \<Rightarrow> real \<Rightarrow> real \<Rightarrow> real) \<Rightarrow> string \<Rightarrow> real list" where
  "calculate_spectral_flux_solar_disc g c ergs isotope r_max s integrand saveas =
     (let r_min = r_lo s;
          r_max = min r_max (r_hi s);
          p2 = \<lparr>sd_erg = 0.0, sd_rad = 0.0, sd_r_max = r_max, sd_s = s,
                 sd_integrand = integrand\<rparr>
      in solar_disc_loop g c r_min r_max p2 ergs [])"

text \<open>The overload without an isotope passes the isotope built from the empty string.\<close>

definition calculate_spectral_flux_solar_disc_NONE ::
  "gsl \<Rightarrow> constants \<Rightarrow> real list \<Rightarrow> real \<Rightarrow> SolarModel
     \<Rightarrow> (SolarModel \<Rightarrow> real \<Rightarrow> real \<Rightarrow> real) \<Rightarrow> string \<Rightarrow> real list" where
  "calculate_spectral_flux_solar_disc_NONE g c ergs r_max s integrand saveas =
     calculate_spectral_flux_solar_disc g c ergs \<lparr>iso_name = []\<rparr> r_max s integrand saveas"

subsection \<open>The windowed-flux integrators\<close>

definition spectral_flux_integrand ::
  "gsl \<Rightarrow> constants \<Rightarrow> real \<Rightarrow> integration_params2 \<Rightarrow> real" where
  "spectral_flux_integrand g c erg p2 =
     (let isotope = ip2_isotope p2;
          s = ip2_sol p2;
          normfactor = 1.0;
          p = \<lparr>ip_erg = erg, ip_sol = s, ip_isotope = isotope\<rparr>;
          (result, error) =
             gsl_integration_qag g (\<lambda>r. (ip2_integrand p2) r p) (r_lo s) (r_hi s)
               (int_abs_prec c) (int_rel_prec c) (int_space_size c) (int_method_1 c)
      in factor c * result / normfactor)"

definition calculate_flux ::
  "gsl \<Rightarrow> constants \<Rightarrow> real \<Rightarrow> real \<Rightarrow> SolarModel \<Rightarrow> Isotope \<Rightarrow> real" where
  "calculate_flux g c lowerlimit upperlimit s isotope =
     (let normfactor = 10 ^ 20;
          p2 = \<lparr>ip2_sol = s, ip2_integrand = integrand_all_axionelectron,
                 ip2_isotope = isotope\<rparr>;
          (result, error) =
             gsl_integration_qag g (\<lambda>erg. spectral_flux_integrand g c erg p2)
               lowerlimit upperlimit (abs_prec2 c) (rel_prec2 c) (10 ^ 8) (int_method_2 c)
      in result * normfactor)"

definition flux_from_file_integrand :: "real \<Rightarrow> OneDInterpolator \<Rightarrow> real" where
  "flux_from_file_integrand erg interp = interpolate interp erg"

definition all_peaks :: "real list" where
  "all_peaks =
     [0.653029, 0.779074, 0.920547, 0.956836, 1.02042, 1.05343, 1.3497, 1.40807,
      1.46949, 1.59487, 1.62314, 1.65075, 1.72461, 1.76286, 1.86037, 2.00007,
      2.45281, 2.61233, 3.12669, 3.30616, 3.88237, 4.08163, 5.64394,
      5.76064, 6.14217, 6.19863, 6.58874, 6.63942, 6.66482, 7.68441, 7.74104, 7.76785]"

text \<open>
  The loop that collects the peaks inside the window, pushing each onto
  \<^verbatim>\<open>relevant_peaks\<close> in the order of \<^verbatim>\<open>all_peaks\<close>.
\<close>

fun relevant_peaks_loop :: "real \<Rightarrow> real \<Rightarrow> real list \<Rightarrow> real list \<Rightarrow> real list" where
  "relevant_peaks_loop erg_min erg_max [] relevant_peaks = relevant_peaks"
| "relevant_peaks_loop erg_min erg_max (peak_erg # peaks) relevant_peaks =
     relevant_peaks_loop erg_min erg_max peaks
       (if erg_min < peak_erg \<and> peak_erg < erg_max
        then relevant_peaks @ [peak_erg] else relevant_peaks)"

text \<open>
  Reading the table is the file system's part: \<open>files\<close> gives the interpolator that
  \<^verbatim>\<open>OneDInterpolator spectral_flux (spectral_flux_file)\<close> builds from a path.
\<close>

definition integrated_flux_from_file ::
  "gsl \<Rightarrow> constants \<Rightarrow> (string \<Rightarrow> OneDInterpolator) \<Rightarrow> real \<Rightarrow> real \<Rightarrow> string \<Rightarrow> bool
     \<Rightarrow> error + real" where
  "integrated_flux_from_file g c files erg_min erg_max spectral_flux_file
       includes_electron_interactions =
     (let spectral_flux = files spectral_flux_file
      in if erg_min < lower spectral_flux \<or> erg_max > upper spectral_flux
         then terminate_with_error
         else
           (let f = (\<lambda>erg. flux_from_file_integrand erg spectral_flux)
            in if includes_electron_interactions
               then
                 (let relevant_peaks = [erg_min];
                      relevant_peaks = relevant_peaks_loop erg_min erg_max all_peaks relevant_peaks;
                      relevant_peaks = relevant_peaks @ [erg_max];
                      (result, error) =
                         gsl_integration_qagp g f relevant_peaks (abs_prec2 c) (rel_prec2 c)
                           (int_space_size c)
                  in Inr result)
               else
                 (let (result, error) =
                         gsl_integration_qag g f erg_min erg_max (abs_prec2 c) (rel_prec2 c)
                           (int_space_size c) (int_method_1 c)
                  in Inr result)))"

subsection \<open>The Monte-Carlo generator\<close>

text \<open>
  Rounding to \<^verbatim>\<open>double\<close> (IEEE 754 binary64, round to nearest, ties to even): the
  significand has 53 bits, so the unit in the last place of \<open>x\<close> is \<open>2\<close> to the power
  \<open>\<lfloor>log\<^sub>2 |x|\<rfloor> - 52\<close>, and never below \<open>2\<^sup>-\<^sup>1\<^sup>0\<^sup>7\<^sup>4\<close> (the subnormal range); a result that rounds
  to \<open>2\<^sup>1\<^sup>0\<^sup>2\<^sup>4\<close> or beyond in magnitude is an infinity, here \<open>None\<close>.
\<close>

definition round_half_even :: "real \<Rightarrow> int" where
  "round_half_even m =
     (let f = \<lfloor>m\<rfloor>
      in if m - of_int f < 1 / 2 then f
         else if 1 / 2 < m - of_int f then f + 1
         else if even f then f else f + 1)"

definition round_to_double :: "real \<Rightarrow> real option" where
  "round_to_double x =
     (if x = 0 then Some 0
      else
        (let e = max (- 1074) (\<lfloor>log 2 \<bar>x\<bar>\<rfloor> - 52);
             y = of_int (round_half_even (x / 2 powi e)) * 2 powi e
         in if 2 ^ 1024 \<le> \<bar>y\<bar> then None else Some y))"

text \<open>
  The quotient \<^verbatim>\<open>(omega_max-omega_min)/omega_delta\<close> as the \<^verbatim>\<open>double\<close> operations give
  it: the difference is rounded, then the quotient. \<open>None\<close> stands for an infinity or NaN:
  a difference that overflows stays infinite under the division, and a division by zero
  gives an infinity or NaN.
\<close>

definition double_quotient :: "real \<Rightarrow> real \<Rightarrow> real \<Rightarrow> real option" where
  "double_quotient omega_min omega_max omega_delta =
     (case round_to_double (omega_max - omega_min) of
        None \<Rightarrow> None
      | Some d \<Rightarrow> if omega_delta = 0 then None else round_to_double (d / omega_delta))"

text \<open>
  \<^verbatim>\<open>int(x)\<close> on a \<^verbatim>\<open>double\<close> drops the fraction (rounds towards zero); the C++
  standard leaves the conversion undefined when the result does not fit the 32-bit
  \<^verbatim>\<open>int\<close>, and so for an infinity or NaN.
\<close>

definition double_to_int :: "real \<Rightarrow> error + int" where
  "double_to_int x =
     (let t = (if 0 \<le> x then \<lfloor>x\<rfloor> else \<lceil>x\<rceil>)
      in if - 2147483648 \<le> t \<and> t \<le> 2147483647 then Inr t else Inl UndefinedBehaviour)"

text \<open>
  The energy grid (the first three lines of the constructor). A negative count reaches
  \<^verbatim>\<open>std::vector\<close> as a huge unsigned size, which it refuses.
\<close>

definition energy_grid :: "real \<Rightarrow> real \<Rightarrow> real \<Rightarrow> error + real list" where
  "energy_grid omega_min omega_max omega_delta =
     (case double_quotient omega_min omega_max omega_delta of
        None \<Rightarrow> Inl UndefinedBehaviour
      | Some q \<Rightarrow>
          (case double_to_int q of
             Inl e \<Rightarrow> Inl e
           | Inr n_omega_vals \<Rightarrow>
               if n_omega_vals < 0 then Inl LengthError
               else Inr (map (\<lambda>i. omega_min + real i * omega_delta)
                           [0..<nat n_omega_vals])))"

text \<open>
  The cumulative loop, in place on \<^verbatim>\<open>inv_cdf_data_x\<close>:
  \<^verbatim>\<open>for(int i=1; i<n_omega_vals; ++i) { norm += 0.5 * omega_delta * (x[i] + x[i-1]); x[i] = norm; }\<close>
  When the loop reads \<^verbatim>\<open>x[i-1]\<close>, the entry already holds the cumulative value
  written one step earlier, not the flux the table started with. The local \<^verbatim>\<open>norm\<close>
  is written \<open>norm'\<close>, since \<open>norm\<close> is a constant of HOL.
\<close>

function cumulative_loop ::
  "real \<Rightarrow> nat \<Rightarrow> nat \<Rightarrow> real \<Rightarrow> real list \<Rightarrow> real \<times> real list" where
  "cumulative_loop omega_delta n_omega_vals i norm' x =
     (if i < n_omega_vals
      then (let norm' = norm' + 0.5 * omega_delta * (x ! i + x ! (i - 1))
            in cumulative_loop omega_delta n_omega_vals (i + 1) norm' (x[i := norm']))
      else (norm', x))"
  by pat_completeness auto
termination
  by (relation "measure (\<lambda>(omega_delta, n_omega_vals, i, acc, x). n_omega_vals - i)") auto

declare cumulative_loop.simps [simp del]

record AxionMCGenerator =
  inv_cdf_data_erg :: "real list"
  inv_cdf_data_x :: "real list"
  integrated_norm :: real

text \<open>
  The constructor. The spectrum has one entry per grid point, so the write to
  \<^verbatim>\<open>inv_cdf_data_x[0]\<close> is out of range when the grid is empty. The last call,
  \<^verbatim>\<open>init_inv_cdf_interpolator\<close>, is defined outside the sources and builds the
  interpolator from the three fields modelled here. When the total is zero the C++ divides
  by zero and stores NaN; the statements below about the normalised entries are for a
  total that is not zero.
\<close>

definition AxionMCGenerator_new ::
  "gsl \<Rightarrow> constants \<Rightarrow> SolarModel \<Rightarrow> (SolarModel \<Rightarrow> real \<Rightarrow> real \<Rightarrow> real)
     \<Rightarrow> real \<Rightarrow> real \<Rightarrow> real \<Rightarrow> real \<Rightarrow> error + AxionMCGenerator" where
  "AxionMCGenerator_new g c s process omega_min omega_max omega_delta r_max =
     (case energy_grid omega_min omega_max omega_delta of
        Inl e \<Rightarrow> Inl e
      | Inr ergs \<Rightarrow>
          (let n_omega_vals = length ergs;
               x = (if r_max < 1.0
                    then calculate_spectral_flux_solar_disc_NONE g c ergs r_max s process []
                    else calculate_spectral_flux_solar_disc_NONE g c ergs 1.0 s process [])
           in if n_omega_vals = 0 then Inl UndefinedBehaviour
              else
                (let norm' = 0.0;
                     x = x[0 := norm'];
                     (norm', x) = cumulative_loop omega_delta n_omega_vals 1 norm' x;
                     x = map (\<lambda>v. v / norm') x
                 in Inr \<lparr>inv_cdf_data_erg = ergs, inv_cdf_data_x = x,
                          integrated_norm = norm'\<rparr>)))"

subsection \<open>Concrete inputs\<close>

text \<open>
  Inputs at which the theorems below are evaluated: a solar model on the radius range
  \<open>[0, 1]\<close> whose accessors are constant, constants that make \<^const>\<open>factor\<close> equal to
  one with a table of four opacity elements, quadrature routines that return the length of
  the interval (the integral of the constant one), the midpoint rule as quadrature
  routines that evaluate their integrand, a table tabulated on \<open>[1, 8]\<close>, and the
  \<^verbatim>\<open>double\<close> that the literal \<^verbatim>\<open>0.1\<close> denotes.
\<close>

definition unit_model :: SolarModel where
  "unit_model =
     \<lparr>r_lo = 0, r_hi = 1, opcode = OP, temperature_in_keV = (\<lambda>r. 1),
      Gamma_P_Primakoff = (\<lambda>erg r. 1), Gamma_P_Compton = (\<lambda>erg r. 1),
      Gamma_P_opacity_el = (\<lambda>erg r el. 1), Gamma_P_opacity = (\<lambda>erg r. 7),
      Gamma_P_ff = (\<lambda>erg r. 1), Gamma_P_ee = (\<lambda>erg r. 1),
      Gamma_P_all_electron = (\<lambda>erg r. 1)\<rparr>"

definition unit_constants :: constants where
  "unit_constants =
     \<lparr>radius_sol = 1, keV2cm = 100, distance_sol = 0.01, hbar = 0.000001,
      int_abs_prec = 0, int_rel_prec = 0.000001, abs_prec2 = 0, rel_prec2 = 0.001,
      int_space_size = 1000, int_method_1 = 5, int_method_2 = 2,
      num_op_elements = 4, op_element_names = [''H'', ''He'', ''C'', ''N'']\<rparr>"

definition unit_gsl :: gsl where
  "unit_gsl =
     \<lparr>gsl_integration_qag = (\<lambda>f a b epsabs epsrel limit key. (b - a, 0)),
      gsl_integration_cquad = (\<lambda>f a b epsabs epsrel. (b - a, 0, 1)),
      gsl_integration_qagp = (\<lambda>f pts epsabs epsrel limit. (last pts - hd pts, 0))\<rparr>"

definition unit_table :: OneDInterpolator where
  "unit_table = \<lparr>interpolate = (\<lambda>erg. 1), lower = 1, upper = 8\<rparr>"

definition midpoint_gsl :: gsl where
  "midpoint_gsl =
     \<lparr>gsl_integration_qag = (\<lambda>f a b epsabs epsrel limit key. ((b - a) * f ((a + b) / 2), 0)),
      gsl_integration_cquad = (\<lambda>f a b epsabs epsrel. ((b - a) * f ((a + b) / 2), 0, 1)),
      gsl_integration_qagp =
        (\<lambda>f pts epsabs epsrel limit.
           ((last pts - hd pts) * f ((hd pts + last pts) / 2), 0))\<rparr>"

definition double_tenth :: real where
  "double_tenth = 3602879701896397 / 36028797018963968"

section \<open>Properties\<close>

subsection \<open>Integrands\<close>

lemma gsl_pow_2_power: "gsl_pow_2 x = x\<^sup>2"
  by (simp add: gsl_pow_2_def power2_eq_square)

text \<open>The volume integrands weigh the rate of their process with \<open>0.5 (r erg / \<pi>)\<^sup>2\<close>.\<close>

lemma volume_integrands_weight:
  "integrand_Primakoff r p =
     0.5 * (r * ip_erg p / pi)\<^sup>2 * Gamma_P_Primakoff (ip_sol p) (ip_erg p) r"
  "integrand_Compton r p =
     0.5 * (r * ip_erg p / pi)\<^sup>2 * Gamma_P_Compton (ip_sol p) (ip_erg p) r"
  "integrand_opacity_element r p =
     0.5 * (r * ip_erg p / pi)\<^sup>2
       * Gamma_P_opacity_el (ip_sol p) (ip_erg p) r (iso_name (ip_isotope p))"
  "integrand_all_ff r p =
     0.5 * (r * ip_erg p / pi)\<^sup>2
       * (Gamma_P_ff (ip_sol p) (ip_erg p) r + Gamma_P_ee (ip_sol p) (ip_erg p) r)"
  "integrand_all_axionelectron r p =
     0.5 * (r * ip_erg p / pi)\<^sup>2 * Gamma_P_all_electron (ip_sol p) (ip_erg p) r"
  by (simp_all add: integrand_Primakoff_def integrand_Compton_def integrand_opacity_element_def
        integrand_all_ff_def integrand_all_axionelectron_def Let_def gsl_pow_2_power)

text \<open>
  C2. The weighted-Compton integrand returns exactly 0 at energy 0, for every radius and
  solar model; at any other energy it returns
  \<open>0.5 (r erg / \<pi>)\<^sup>2 \<cdot> 0.5 (1 - 1 / (exp (erg / T r) - 1)) \<cdot> \<Gamma>\<^sub>C\<^sub>o\<^sub>m\<^sub>p\<^sub>t\<^sub>o\<^sub>n erg r\<close>.
\<close>

theorem integrand_weightedCompton_cases:
  "(ip_erg p = 0 \<longrightarrow> integrand_weightedCompton r p = 0) \<and>
   (ip_erg p \<noteq> 0 \<longrightarrow>
      integrand_weightedCompton r p =
        0.5 * (r * ip_erg p / pi)\<^sup>2
          * (0.5 * (1 - 1 / (exp (ip_erg p / temperature_in_keV (ip_sol p) r) - 1)))
          * Gamma_P_Compton (ip_sol p) (ip_erg p) r)"
  by (simp add: integrand_weightedCompton_def Let_def gsl_pow_2_power gsl_expm1_def)

theorem integrand_weightedCompton_cases_witness:
  "integrand_weightedCompton 1
     \<lparr>ip_erg = 0, ip_sol = unit_model, ip_isotope = \<lparr>iso_name = []\<rparr>\<rparr> = 0 \<and>
   integrand_weightedCompton 1
     \<lparr>ip_erg = 1, ip_sol = unit_model, ip_isotope = \<lparr>iso_name = []\<rparr>\<rparr>
     = 0.5 * (1 / pi)\<^sup>2 * (0.5 * (1 - 1 / (exp 1 - 1)))"
  using
    integrand_weightedCompton_cases
      [of "\<lparr>ip_erg = 0, ip_sol = unit_model, ip_isotope = \<lparr>iso_name = []\<rparr>\<rparr>" 1]
    integrand_weightedCompton_cases
      [of "\<lparr>ip_erg = 1, ip_sol = unit_model, ip_isotope = \<lparr>iso_name = []\<rparr>\<rparr>" 1]
  by (simp add: unit_model_def)

text \<open>The element loop adds the rates of the elements at the indices from \<open>k\<close> on.\<close>

lemma opacity_element_loop_sum:
  "opacity_element_loop c sol erg r k acc =
     acc + (\<Sum>j = k..<num_op_elements c. Gamma_P_opacity_el sol erg r (op_element_names c ! j))"
proof (induction c sol erg r k acc rule: opacity_element_loop.induct)
  case (1 c sol erg r k acc)
  show ?case
  proof (cases "k < num_op_elements c")
    case True
    then show ?thesis
      using "1.IH" [OF True]
      by (subst opacity_element_loop.simps) (simp add: sum.atLeast_Suc_lessThan)
  next
    case False
    then show ?thesis
      by (subst opacity_element_loop.simps) simp
  qed
qed

lemma sum_nth_drop:
  fixes f :: "'a \<Rightarrow> real"
  shows "(\<Sum>j = k..<length xs. f (xs ! j)) = sum_list (map f (drop k xs))"
proof -
  have "map f (drop k xs) = map (\<lambda>j. f (xs ! j)) [k..<length xs]"
    by (rule nth_equalityI) (auto simp: nth_append)
  then show ?thesis
    by (simp add: interv_sum_list_conv_sum_set_nat)
qed

lemma integrand_opacity_OP:
  assumes "opcode (ip_sol p) = OP"
  shows "integrand_opacity c r p =
        0.5 * (r * ip_erg p / pi)\<^sup>2
          * (\<Sum>k = 2..<num_op_elements c.
               Gamma_P_opacity_el (ip_sol p) (ip_erg p) r (op_element_names c ! k))"
  using assms
  by (simp add: integrand_opacity_def Let_def gsl_pow_2_power opacity_element_loop_sum)

lemma integrand_opacity_aggregate:
  assumes "opcode (ip_sol p) = OPAS \<or> opcode (ip_sol p) = LEDCOP \<or> opcode (ip_sol p) = ATOMIC"
  shows "integrand_opacity c r p =
        0.5 * (r * ip_erg p / pi)\<^sup>2 * Gamma_P_opacity (ip_sol p) (ip_erg p) r"
  using assms
  by (auto simp add: integrand_opacity_def Let_def gsl_pow_2_power)

lemma integrand_opacity_OP_all:
  assumes op: "opcode (ip_sol p) = OP"
    and len: "num_op_elements c = length (op_element_names c)"
  shows "integrand_opacity c r p =
        0.5 * (r * ip_erg p / pi)\<^sup>2
          * sum_list (map (Gamma_P_opacity_el (ip_sol p) (ip_erg p) r)
                        (drop 2 (op_element_names c)))"
proof -
  have "(\<Sum>k = 2..<length (op_element_names c).
               Gamma_P_opacity_el (ip_sol p) (ip_erg p) r (op_element_names c ! k))
        = sum_list (map (Gamma_P_opacity_el (ip_sol p) (ip_erg p) r)
                        (drop 2 (op_element_names c)))"
    by (rule sum_nth_drop)
  then show ?thesis
    using integrand_opacity_OP [OF op, of c r] len by simp
qed

text \<open>
  C9. With the opacity code OP the aggregated-metal integrand is
  \<open>0.5 (r erg / \<pi>)\<^sup>2\<close> times the sum of the element rates over the loop indices
  \<open>2 \<le> k < num_op_elements\<close>; when \<open>num_op_elements\<close> is the length of the element
  table, that is the sum over all tabulated elements but the first two. With the code OPAS,
  LEDCOP or ATOMIC it is \<open>0.5 (r erg / \<pi>)\<^sup>2\<close> times the single aggregate rate.
\<close>

theorem integrand_opacity_dispatch:
  "(opcode (ip_sol p) = OP \<longrightarrow>
      integrand_opacity c r p =
        0.5 * (r * ip_erg p / pi)\<^sup>2
          * (\<Sum>k = 2..<num_op_elements c.
               Gamma_P_opacity_el (ip_sol p) (ip_erg p) r (op_element_names c ! k))) \<and>
   (opcode (ip_sol p) = OP \<and> num_op_elements c = length (op_element_names c) \<longrightarrow>
      integrand_opacity c r p =
        0.5 * (r * ip_erg p / pi)\<^sup>2
          * sum_list (map (Gamma_P_opacity_el (ip_sol p) (ip_erg p) r)
                        (drop 2 (op_element_names c)))) \<and>
   (opcode (ip_sol p) = OPAS \<or> opcode (ip_sol p) = LEDCOP \<or> opcode (ip_sol p) = ATOMIC \<longrightarrow>
      integrand_opacity c r p =
        0.5 * (r * ip_erg p / pi)\<^sup>2 * Gamma_P_opacity (ip_sol p) (ip_erg p) r)"
  using integrand_opacity_OP [of p c r] integrand_opacity_OP_all [of p c r]
    integrand_opacity_aggregate [of p c r]
  by blast

theorem integrand_opacity_dispatch_witness:
  "integrand_opacity unit_constants 1
      \<lparr>ip_erg = 1, ip_sol = unit_model, ip_isotope = \<lparr>iso_name = []\<rparr>\<rparr>
     = 0.5 * (1 / pi)\<^sup>2 * 2 \<and>
   integrand_opacity unit_constants 1
      \<lparr>ip_erg = 1, ip_sol = unit_model\<lparr>opcode := LEDCOP\<rparr>, ip_isotope = \<lparr>iso_name = []\<rparr>\<rparr>
     = 0.5 * (1 / pi)\<^sup>2 * 7"
  using
    integrand_opacity_dispatch
      [of "\<lparr>ip_erg = 1, ip_sol = unit_model, ip_isotope = \<lparr>iso_name = []\<rparr>\<rparr>"
          unit_constants 1]
    integrand_opacity_dispatch
      [of "\<lparr>ip_erg = 1, ip_sol = unit_model\<lparr>opcode := LEDCOP\<rparr>,
             ip_isotope = \<lparr>iso_name = []\<rparr>\<rparr>"
          unit_constants 1]
  by (simp add: unit_model_def unit_constants_def)

subsection \<open>The disc integrator\<close>

text \<open>
  What \<^const>\<open>rho_integrand\<close> computes: the square is taken of \<open>0.5 erg / \<pi>\<close>, so the
  weight of the rate is \<open>0.25 (erg / \<pi>)\<^sup>2\<close>.
\<close>

lemma rho_integrand_formula:
  "rho_integrand rho p1 =
     rho / sqrt (rho\<^sup>2 - (sd_rad p1)\<^sup>2) * (0.25 * (sd_erg p1 / pi)\<^sup>2)
       * sd_integrand p1 (sd_s p1) (sd_erg p1) rho"
  by (simp add: rho_integrand_def Let_def gsl_pow_2_power power2_eq_square)

text \<open>
  C1. The claim gives the inner integrand as
  \<open>(rho / sqrt (rho\<^sup>2 - rad\<^sup>2)) \<cdot> 0.5 (erg / \<pi>)\<^sup>2 \<cdot> process erg rho\<close>. At \<open>rho = 1\<close>,
  \<open>rad = 0\<close>, \<open>erg = \<pi>\<close> and a process that returns 1, the code returns \<open>1/4\<close> where the
  claimed expression is \<open>1/2\<close>: the volume integrands weigh the rate with
  \<open>0.5 (r erg / \<pi>)\<^sup>2\<close>, while \<^verbatim>\<open>rho_integrand\<close> squares the factor \<open>0.5\<close> as well.
\<close>

theorem rho_integrand_at_pi:
  "rho_integrand 1 \<lparr>sd_erg = pi, sd_rad = 0, sd_r_max = 1, sd_s = unit_model,
                     sd_integrand = Gamma_P_Primakoff\<rparr> = 1 / 4
   \<and> (1 / sqrt (1\<^sup>2 - 0\<^sup>2)) * (0.5 * (pi / pi)\<^sup>2) * Gamma_P_Primakoff unit_model pi 1 = 1 / 2"
  by (simp add: rho_integrand_def Let_def gsl_pow_2_def unit_model_def)

lemma solar_disc_loop_map:
  "solar_disc_loop g c r_min r_max p2 ergs results =
     results @ map (\<lambda>e. factor c *
        fst (gsl_integration_qag g (\<lambda>rad. rad_integrand g c rad (p2\<lparr>sd_erg := e\<rparr>)) r_min r_max
               (int_abs_prec c) (int_rel_prec c) (int_space_size c) (int_method_1 c))) ergs"
proof (induction ergs arbitrary: p2 results)
  case Nil
  show ?case by simp
next
  case (Cons e ergs)
  show ?case
    by (simp add: Let_def split_beta Cons.IH)
qed

lemma rad_integrand_bounds:
  "rad_integrand g c rad p2 =
     rad * fst (gsl_integration_cquad g (\<lambda>rho. rho_integrand rho (p2\<lparr>sd_rad := rad\<rparr>)) rad
                  (min (sd_r_max p2) (r_hi (sd_s p2)))
                  (0.1 * int_abs_prec c) (0.1 * int_rel_prec c))"
  by (simp add: rad_integrand_def Let_def split_beta)

text \<open>
  C4. In every call of the disc integrator, whatever the quadrature routines are, the outer
  integral over the impact parameter runs from \<open>r_lo\<close> to \<open>min r_max r_hi\<close>, and the inner
  integral along the line of sight runs from the impact parameter to the same
  \<open>min r_max r_hi\<close>: the second clamp in \<^verbatim>\<open>rad_integrand\<close> leaves the clamped value
  unchanged.
\<close>

theorem solar_disc_r_max_clamped:
  "calculate_spectral_flux_solar_disc g c ergs isotope r_max s integrand saveas =
     map (\<lambda>e. factor c *
        fst (gsl_integration_qag g
               (\<lambda>rad. rad *
                  fst (gsl_integration_cquad g
                         (\<lambda>rho. rho_integrand rho
                            \<lparr>sd_erg = e, sd_rad = rad, sd_r_max = min r_max (r_hi s), sd_s = s,
                              sd_integrand = integrand\<rparr>)
                         rad (min r_max (r_hi s))
                         (0.1 * int_abs_prec c) (0.1 * int_rel_prec c)))
               (r_lo s) (min r_max (r_hi s))
               (int_abs_prec c) (int_rel_prec c) (int_space_size c) (int_method_1 c)))
       ergs"
  by (simp add: calculate_spectral_flux_solar_disc_def Let_def solar_disc_loop_map
        rad_integrand_bounds)

subsection \<open>Integrating a tabulated spectrum\<close>

text \<open>
  C3. \<^verbatim>\<open>integrated_flux_from_file\<close> ends with the range error exactly when \<open>erg_min\<close>
  is strictly below the lower bound of the table or \<open>erg_max\<close> strictly above its upper
  bound, and it ends with no other error; the error is returned before either quadrature
  routine is called, so it carries no estimate. A window whose endpoints are the bounds of
  the table is accepted and gives a result.
\<close>

theorem integrated_flux_from_file_range_error:
  "(integrated_flux_from_file g c files erg_min erg_max spectral_flux_file flag = Inl RangeError)
     = (erg_min < lower (files spectral_flux_file) \<or> erg_max > upper (files spectral_flux_file))
   \<and> (\<exists>e. integrated_flux_from_file g c files erg_min erg_max spectral_flux_file flag = Inl e)
     = (erg_min < lower (files spectral_flux_file) \<or> erg_max > upper (files spectral_flux_file))
   \<and> (\<exists>y. integrated_flux_from_file g c files
              (lower (files spectral_flux_file)) (upper (files spectral_flux_file))
              spectral_flux_file flag = Inr y)"
  by (simp add: integrated_flux_from_file_def terminate_with_error_def Let_def split_beta)

lemma relevant_peaks_loop_filter:
  "relevant_peaks_loop erg_min erg_max peaks relevant_peaks =
     relevant_peaks @ filter (\<lambda>p. erg_min < p \<and> p < erg_max) peaks"
  by (induction peaks arbitrary: relevant_peaks) simp_all

text \<open>The list of line energies is strictly ascending.\<close>

lemma all_peaks_ascending: "sorted_wrt (<) all_peaks"
  by (simp add: all_peaks_def)

lemma partition_ascending:
  assumes "erg_min < erg_max"
  shows "sorted_wrt (<) (erg_min # filter (\<lambda>p. erg_min < p \<and> p < erg_max) all_peaks @ [erg_max])"
proof -
  have "sorted_wrt (<) (filter (\<lambda>p. erg_min < p \<and> p < erg_max) all_peaks)"
    by (rule sorted_wrt_filter) (rule all_peaks_ascending)
  with assms show ?thesis
    by (auto simp: sorted_wrt_append)
qed

text \<open>
  C5. For a window inside the table: with the flag set, the break points handed to
  \<^verbatim>\<open>qagp\<close> are \<open>erg_min\<close>, then the line energies \<open>p\<close> with \<open>erg_min < p < erg_max\<close> in
  the order of the list, then \<open>erg_max\<close>, a strictly ascending partition when
  \<open>erg_min < erg_max\<close>; with the flag not set, there is one call of \<^verbatim>\<open>qag\<close> over
  \<open>[erg_min, erg_max]\<close>.
\<close>

theorem integrated_flux_from_file_partition:
  assumes "\<not> (erg_min < lower (files spectral_flux_file) \<or> erg_max > upper (files spectral_flux_file))"
  shows "integrated_flux_from_file g c files erg_min erg_max spectral_flux_file True =
       Inr (fst (gsl_integration_qagp g (\<lambda>erg. interpolate (files spectral_flux_file) erg)
                   (erg_min # filter (\<lambda>p. erg_min < p \<and> p < erg_max) all_peaks @ [erg_max])
                   (abs_prec2 c) (rel_prec2 c) (int_space_size c)))
     \<and> integrated_flux_from_file g c files erg_min erg_max spectral_flux_file False =
       Inr (fst (gsl_integration_qag g (\<lambda>erg. interpolate (files spectral_flux_file) erg)
                   erg_min erg_max (abs_prec2 c) (rel_prec2 c) (int_space_size c)
                   (int_method_1 c)))
     \<and> (erg_min < erg_max \<longrightarrow>
          sorted_wrt (<)
            (erg_min # filter (\<lambda>p. erg_min < p \<and> p < erg_max) all_peaks @ [erg_max]))"
  using assms partition_ascending [of erg_min erg_max]
  by (simp add: integrated_flux_from_file_def Let_def split_beta relevant_peaks_loop_filter
        flux_from_file_integrand_def)

theorem integrated_flux_from_file_partition_witness:
  "\<not> ((1::real) < lower unit_table \<or> (2::real) > upper unit_table)
   \<and> integrated_flux_from_file unit_gsl unit_constants (\<lambda>path. unit_table) 1 2 [] True = Inr 1
   \<and> integrated_flux_from_file unit_gsl unit_constants (\<lambda>path. unit_table) 1 2 [] False = Inr 1
   \<and> filter (\<lambda>p. 1 < p \<and> p < 2) all_peaks =
       [1.02042, 1.05343, 1.3497, 1.40807, 1.46949, 1.59487, 1.62314, 1.65075, 1.72461,
        1.76286, 1.86037]"
  using integrated_flux_from_file_partition
      [of 1 "\<lambda>path. unit_table" "[]" 2 unit_gsl unit_constants]
  by (simp add: unit_table_def unit_gsl_def all_peaks_def)

subsection \<open>The windowed flux computed on the fly\<close>

lemma spectral_flux_integrand_eq:
  "spectral_flux_integrand g c erg p2 =
     factor c *
       fst (gsl_integration_qag g
              (\<lambda>r. ip2_integrand p2 r
                      \<lparr>ip_erg = erg, ip_sol = ip2_sol p2, ip_isotope = ip2_isotope p2\<rparr>)
              (r_lo (ip2_sol p2)) (r_hi (ip2_sol p2))
              (int_abs_prec c) (int_rel_prec c) (int_space_size c) (int_method_1 c))"
  by (simp add: spectral_flux_integrand_def Let_def split_beta)

lemma calculate_flux_eq:
  "calculate_flux g c lowerlimit upperlimit s isotope =
     10 ^ 20 *
       fst (gsl_integration_qag g
              (\<lambda>erg. spectral_flux_integrand g c erg
                        \<lparr>ip2_sol = s, ip2_integrand = integrand_all_axionelectron,
                          ip2_isotope = isotope\<rparr>)
              lowerlimit upperlimit (abs_prec2 c) (rel_prec2 c) (10 ^ 8) (int_method_2 c))"
  by (simp add: calculate_flux_def Let_def split_beta)

text \<open>
  The scale \<^const>\<open>factor\<close> and the weight \<open>0.5 (r erg / \<pi>)\<^sup>2\<close> of the radial integrand make
  up \<open>R\<^sup>3 / (2 \<pi>\<^sup>2 d\<^sup>2 \<hbar>)\<close> (with the unit conversions of the code) times \<open>(r erg)\<^sup>2\<close>.
\<close>

lemma factor_weight:
  "factor c * (0.5 * gsl_pow_2 (r * erg / pi)) =
     (radius_sol c / (0.01 * keV2cm c)) ^ 3
       / (2 * pi\<^sup>2 * (100 * distance_sol c) ^ 2 * (1000000 * hbar c)) * (r * erg)\<^sup>2"
  by (simp add: factor_def gsl_pow_2_def power2_eq_square)

text \<open>
  C8. \<^verbatim>\<open>calculate_flux\<close> returns \<open>10\<^sup>2\<^sup>0\<close> times the estimate that \<^verbatim>\<open>qag\<close> gives for the
  integral of \<^verbatim>\<open>spectral_flux_integrand\<close> over the window. Each evaluation of that
  integrand is \<^const>\<open>factor\<close> times the estimate of the radial integral, divided by the
  norm factor 1; together with the weight of the radial integrand the scale is
  \<open>R\<^sup>3 / (2 \<pi>\<^sup>2 d\<^sup>2 \<hbar>)\<close>.
\<close>

theorem calculate_flux_rescaled:
  "calculate_flux g c lowerlimit upperlimit s isotope =
     10 ^ 20 *
       fst (gsl_integration_qag g
              (\<lambda>erg. spectral_flux_integrand g c erg
                        \<lparr>ip2_sol = s, ip2_integrand = integrand_all_axionelectron,
                          ip2_isotope = isotope\<rparr>)
              lowerlimit upperlimit (abs_prec2 c) (rel_prec2 c) (10 ^ 8) (int_method_2 c))
   \<and> spectral_flux_integrand g c erg p2 =
     factor c *
       fst (gsl_integration_qag g
              (\<lambda>r. ip2_integrand p2 r
                      \<lparr>ip_erg = erg, ip_sol = ip2_sol p2, ip_isotope = ip2_isotope p2\<rparr>)
              (r_lo (ip2_sol p2)) (r_hi (ip2_sol p2))
              (int_abs_prec c) (int_rel_prec c) (int_space_size c) (int_method_1 c)) / 1
   \<and> factor c * integrand_all_axionelectron r p =
     (radius_sol c / (0.01 * keV2cm c)) ^ 3
       / (2 * pi\<^sup>2 * (100 * distance_sol c) ^ 2 * (1000000 * hbar c))
       * (r * ip_erg p)\<^sup>2 * Gamma_P_all_electron (ip_sol p) (ip_erg p) r"
proof (intro conjI)
  show "factor c * integrand_all_axionelectron r p =
     (radius_sol c / (0.01 * keV2cm c)) ^ 3
       / (2 * pi\<^sup>2 * (100 * distance_sol c) ^ 2 * (1000000 * hbar c))
       * (r * ip_erg p)\<^sup>2 * Gamma_P_all_electron (ip_sol p) (ip_erg p) r"
  proof -
    have "factor c * integrand_all_axionelectron r p =
            factor c * (0.5 * gsl_pow_2 (r * ip_erg p / pi))
              * Gamma_P_all_electron (ip_sol p) (ip_erg p) r"
      by (simp add: integrand_all_axionelectron_def Let_def)
    then show ?thesis
      by (simp only: factor_weight)
  qed
qed (simp_all add: calculate_flux_eq spectral_flux_integrand_eq)

lemma calculate_flux_axionelectron:
  "calculate_flux g c lowerlimit upperlimit s isotope =
     10 ^ 20 *
       fst (gsl_integration_qag g
              (\<lambda>erg. factor c *
                 fst (gsl_integration_qag g
                        (\<lambda>r. 0.5 * (r * erg / pi)\<^sup>2 * Gamma_P_all_electron s erg r)
                        (r_lo s) (r_hi s)
                        (int_abs_prec c) (int_rel_prec c) (int_space_size c) (int_method_1 c)))
              lowerlimit upperlimit (abs_prec2 c) (rel_prec2 c) (10 ^ 8) (int_method_2 c))"
  by (simp add: calculate_flux_eq spectral_flux_integrand_eq integrand_all_axionelectron_def
        Let_def gsl_pow_2_power)

text \<open>
  C10. \<^verbatim>\<open>calculate_flux\<close> has no process selector: its radial integrand is always
  \<^verbatim>\<open>integrand_all_axionelectron\<close>, the weighted axion-electron rate. Whatever the
  quadrature routines are, the flux it returns is \<open>10\<^sup>2\<^sup>0\<close> times the estimate, over the
  window, of \<^const>\<open>factor\<close> times the estimate over \<open>[r_lo, r_hi]\<close> of
  \<open>0.5 (r erg / \<pi>)\<^sup>2 \<Gamma>\<^sub>a\<^sub>l\<^sub>l\<^sub>_\<^sub>e\<^sub>l\<^sub>e\<^sub>c\<^sub>t\<^sub>r\<^sub>o\<^sub>n erg r\<close>. So it depends on the solar model only
  through the radius range and the axion-electron rate, and not on the isotope: two models
  that agree on these give the same flux, whatever their other rates are.
\<close>

theorem calculate_flux_axionelectron_only:
  "calculate_flux g c lowerlimit upperlimit s isotope =
     10 ^ 20 *
       fst (gsl_integration_qag g
              (\<lambda>erg. factor c *
                 fst (gsl_integration_qag g
                        (\<lambda>r. 0.5 * (r * erg / pi)\<^sup>2 * Gamma_P_all_electron s erg r)
                        (r_lo s) (r_hi s)
                        (int_abs_prec c) (int_rel_prec c) (int_space_size c) (int_method_1 c)))
              lowerlimit upperlimit (abs_prec2 c) (rel_prec2 c) (10 ^ 8) (int_method_2 c))
   \<and> calculate_flux g c lowerlimit upperlimit s isotope =
     10 ^ 20 *
       fst (gsl_integration_qag g
              (\<lambda>erg. factor c *
                 fst (gsl_integration_qag g
                        (\<lambda>r. integrand_all_axionelectron r
                                \<lparr>ip_erg = erg, ip_sol = s, ip_isotope = isotope\<rparr>)
                        (r_lo s) (r_hi s)
                        (int_abs_prec c) (int_rel_prec c) (int_space_size c) (int_method_1 c)))
              lowerlimit upperlimit (abs_prec2 c) (rel_prec2 c) (10 ^ 8) (int_method_2 c))
   \<and> integrand_all_axionelectron r p =
     0.5 * (r * ip_erg p / pi)\<^sup>2 * Gamma_P_all_electron (ip_sol p) (ip_erg p) r
   \<and> (r_lo s' = r_lo s \<and> r_hi s' = r_hi s
        \<and> Gamma_P_all_electron s' = Gamma_P_all_electron s \<longrightarrow>
      calculate_flux g c lowerlimit upperlimit s' isotope' =
        calculate_flux g c lowerlimit upperlimit s isotope)"
proof (intro conjI impI)
  show "calculate_flux g c lowerlimit upperlimit s isotope =
     10 ^ 20 *
       fst (gsl_integration_qag g
              (\<lambda>erg. factor c *
                 fst (gsl_integration_qag g
                        (\<lambda>r. 0.5 * (r * erg / pi)\<^sup>2 * Gamma_P_all_electron s erg r)
                        (r_lo s) (r_hi s)
                        (int_abs_prec c) (int_rel_prec c) (int_space_size c) (int_method_1 c)))
              lowerlimit upperlimit (abs_prec2 c) (rel_prec2 c) (10 ^ 8) (int_method_2 c))"
    by (rule calculate_flux_axionelectron)
next
  show "calculate_flux g c lowerlimit upperlimit s isotope =
     10 ^ 20 *
       fst (gsl_integration_qag g
              (\<lambda>erg. factor c *
                 fst (gsl_integration_qag g
                        (\<lambda>r. integrand_all_axionelectron r
                                \<lparr>ip_erg = erg, ip_sol = s, ip_isotope = isotope\<rparr>)
                        (r_lo s) (r_hi s)
                        (int_abs_prec c) (int_rel_prec c) (int_space_size c) (int_method_1 c)))
              lowerlimit upperlimit (abs_prec2 c) (rel_prec2 c) (10 ^ 8) (int_method_2 c))"
    by (simp add: calculate_flux_eq spectral_flux_integrand_eq)
next
  show "integrand_all_axionelectron r p =
     0.5 * (r * ip_erg p / pi)\<^sup>2 * Gamma_P_all_electron (ip_sol p) (ip_erg p) r"
    by (simp add: integrand_all_axionelectron_def Let_def gsl_pow_2_power)
next
  assume "r_lo s' = r_lo s \<and> r_hi s' = r_hi s
        \<and> Gamma_P_all_electron s' = Gamma_P_all_electron s"
  then show "calculate_flux g c lowerlimit upperlimit s' isotope' =
        calculate_flux g c lowerlimit upperlimit s isotope"
    by (simp add: calculate_flux_axionelectron)
qed

text \<open>
  With the midpoint rule on the window \<open>[\<pi>, 3\<pi>]\<close>: the flux follows the axion-electron rate
  (three times the rate gives three times the flux) and ignores the other rates, the
  opacity code and the isotope.
\<close>

theorem calculate_flux_axionelectron_only_witness:
  "calculate_flux midpoint_gsl unit_constants pi (3 * pi) unit_model \<lparr>iso_name = []\<rparr>
     = 10 ^ 20 * pi
   \<and> calculate_flux midpoint_gsl unit_constants pi (3 * pi)
        (unit_model\<lparr>Gamma_P_all_electron := (\<lambda>erg r. 3)\<rparr>) \<lparr>iso_name = []\<rparr>
     = 3 * 10 ^ 20 * pi
   \<and> calculate_flux midpoint_gsl unit_constants pi (3 * pi)
        (unit_model\<lparr>opcode := ATOMIC, Gamma_P_Primakoff := (\<lambda>erg r. 5),
                     Gamma_P_Compton := (\<lambda>erg r. erg)\<rparr>) \<lparr>iso_name = ''Fe''\<rparr>
     = calculate_flux midpoint_gsl unit_constants pi (3 * pi) unit_model \<lparr>iso_name = []\<rparr>"
  using
    calculate_flux_axionelectron_only
      [of midpoint_gsl unit_constants pi "3 * pi" unit_model "\<lparr>iso_name = []\<rparr>" 0
          "\<lparr>ip_erg = 0, ip_sol = unit_model, ip_isotope = \<lparr>iso_name = []\<rparr>\<rparr>"
          "unit_model\<lparr>opcode := ATOMIC, Gamma_P_Primakoff := (\<lambda>erg r. 5),
                       Gamma_P_Compton := (\<lambda>erg r. erg)\<rparr>" "\<lparr>iso_name = ''Fe''\<rparr>"]
    calculate_flux_axionelectron_only
      [of midpoint_gsl unit_constants pi "3 * pi"
          "unit_model\<lparr>Gamma_P_all_electron := (\<lambda>erg r. 3)\<rparr>" "\<lparr>iso_name = []\<rparr>" 0
          "\<lparr>ip_erg = 0, ip_sol = unit_model, ip_isotope = \<lparr>iso_name = []\<rparr>\<rparr>"
          unit_model "\<lparr>iso_name = []\<rparr>"]
  by (simp add: midpoint_gsl_def unit_constants_def unit_model_def factor_def power2_eq_square)

subsection \<open>The Monte-Carlo generator\<close>

lemma double_to_int_floor:
  assumes "0 \<le> x" and "x < 2147483648"
  shows "double_to_int x = Inr \<lfloor>x\<rfloor>"
proof -
  have "\<lfloor>x\<rfloor> < 2147483648"
    using assms(2) by (simp add: floor_less_iff)
  moreover have "0 \<le> \<lfloor>x\<rfloor>"
    using assms(1) by simp
  ultimately show ?thesis
    using assms(1) by (simp add: double_to_int_def Let_def)
qed

text \<open>Rounding keeps the sign: what is not negative rounds to what is not negative.\<close>

lemma round_half_even_nonneg: "0 \<le> m \<Longrightarrow> 0 \<le> round_half_even m"
  by (simp add: round_half_even_def Let_def)

lemma round_to_double_nonneg:
  assumes "0 \<le> x" and "round_to_double x = Some y"
  shows "0 \<le> y"
proof (cases "x = 0")
  case True
  with assms(2) show ?thesis
    by (simp add: round_to_double_def)
next
  case False
  define e where "e = max (- 1074) (\<lfloor>log 2 \<bar>x\<bar>\<rfloor> - 52)"
  have "0 \<le> x / 2 powi e"
    using assms(1) by simp
  then have "0 \<le> round_half_even (x / 2 powi e)"
    by (rule round_half_even_nonneg)
  then have "0 \<le> of_int (round_half_even (x / 2 powi e)) * (2::real) powi e"
    by simp
  moreover have "y = of_int (round_half_even (x / 2 powi e)) * 2 powi e"
    using assms(2) False
    by (simp add: round_to_double_def Let_def e_def split: if_splits)
  ultimately show ?thesis
    by simp
qed

lemma double_quotient_nonneg:
  assumes "omega_min < omega_max" and "0 < omega_delta"
    and "double_quotient omega_min omega_max omega_delta = Some q"
  shows "0 \<le> q"
proof -
  from assms(2,3) obtain d where
    d: "round_to_double (omega_max - omega_min) = Some d"
    and q: "round_to_double (d / omega_delta) = Some q"
    by (auto simp: double_quotient_def split: option.splits)
  have "0 \<le> d"
    using assms(1) d by (auto intro: round_to_double_nonneg [of "omega_max - omega_min"])
  then have "0 \<le> d / omega_delta"
    using assms(2) by simp
  then show ?thesis
    using q by (rule round_to_double_nonneg)
qed

lemma energy_grid_uniform:
  assumes "double_quotient omega_min omega_max omega_delta = Some q"
    and "0 \<le> q" and "q < 2147483648"
  shows "energy_grid omega_min omega_max omega_delta =
     Inr (map (\<lambda>i. omega_min + real i * omega_delta) [0..<nat \<lfloor>q\<rfloor>])"
  using assms by (simp add: energy_grid_def double_to_int_floor)

text \<open>
  Rounding a number whose binade is known: for \<open>2\<^sup>k \<le> |x| < 2\<^sup>k\<^sup>+\<^sup>1\<close> the unit in the last
  place is \<open>2\<close> to the power \<open>max (-1074) (k - 52)\<close>.
\<close>

lemma floor_log2_eq:
  assumes "2 powi k \<le> \<bar>x\<bar>" and "\<bar>x\<bar> < 2 powi (k + 1)"
  shows "\<lfloor>log 2 \<bar>x\<bar>\<rfloor> = k"
proof -
  have "(0::real) < 2 powi k"
    by simp
  then have pos: "0 < \<bar>x\<bar>"
    using assms(1) by linarith
  have "2 powr (of_int k) \<le> \<bar>x\<bar>"
    using assms(1) by (simp add: powr_real_of_int')
  then have lo: "of_int k \<le> log 2 \<bar>x\<bar>"
    using pos by (simp add: le_log_iff)
  have "(2::real) powr (of_int k + 1) = 2 powi (k + 1)"
    using powr_real_of_int' [of 2 "k + 1"] by simp
  then have "\<bar>x\<bar> < 2 powr (of_int k + 1)"
    using assms(2) by simp
  then have hi: "log 2 \<bar>x\<bar> < of_int k + 1"
    using pos by (simp add: log_less_iff)
  show ?thesis
    using lo hi by (simp add: floor_eq_iff)
qed

lemma round_to_double_eval:
  assumes "2 powi k \<le> \<bar>x\<bar>" and "\<bar>x\<bar> < 2 powi (k + 1)"
  shows "round_to_double x =
     (let e = max (- 1074) (k - 52);
          y = of_int (round_half_even (x / 2 powi e)) * 2 powi e
      in if 2 ^ 1024 \<le> \<bar>y\<bar> then None else Some y)"
proof -
  have p: "(0::real) < 2 powi k"
    by simp
  have "x \<noteq> 0"
  proof
    assume "x = 0"
    with assms(1) have "2 powi k \<le> (0::real)"
      by simp
    with p show False
      by linarith
  qed
  then show ?thesis
    by (simp add: round_to_double_def floor_log2_eq [OF assms])
qed

lemma round_to_double_1: "round_to_double 1 = Some 1"
  using round_to_double_eval [of 0 1]
  by (simp add: round_half_even_def Let_def)

lemma round_to_double_3: "round_to_double 3 = Some 3"
  using round_to_double_eval [of 1 3]
  by (simp add: round_half_even_def Let_def)

lemma round_to_double_4: "round_to_double 4 = Some 4"
  using round_to_double_eval [of 2 4]
  by (simp add: round_half_even_def Let_def)

lemma round_to_double_2147483648: "round_to_double 2147483648 = Some 2147483648"
  using round_to_double_eval [of 31 2147483648]
  by (simp add: round_half_even_def Let_def)

text \<open>
  The exact quotient of 1 and the \<^verbatim>\<open>double\<close> \<^verbatim>\<open>0.1\<close> lies below 10 by less than half
  a unit in the last place, and rounds to 10.
\<close>

lemma round_to_double_ten:
  "round_to_double (36028797018963968 / 3602879701896397) = Some 10"
  using round_to_double_eval [of 3 "36028797018963968 / 3602879701896397"]
  by (simp add: round_half_even_def Let_def)

lemma double_quotient_values:
  "double_quotient 0 1 (1 / 4) = Some 4"
  "double_quotient 1 4 1 = Some 3"
  "double_quotient 0 2147483648 1 = Some 2147483648"
  "double_quotient 0 1 double_tenth = Some 10"
  by (simp_all add: double_quotient_def double_tenth_def round_to_double_1 round_to_double_3
        round_to_double_4 round_to_double_2147483648 round_to_double_ten)

text \<open>
  C7, as amended. Let \<open>q\<close> be the quotient \<open>(omega_max - omega_min) / omega_delta\<close> as the
  code computes it in \<^verbatim>\<open>double\<close> arithmetic (the difference rounded, then the quotient
  rounded). For \<open>omega_min < omega_max\<close> and \<open>omega_delta > 0\<close> with \<open>q\<close> finite and below
  \<open>2\<^sup>3\<^sup>1\<close>, so that the count fits the \<^verbatim>\<open>int\<close> it is converted to, the energy grid has
  exactly \<open>\<lfloor>q\<rfloor>\<close> points, the \<open>i\<close>-th being \<open>omega_min + i omega_delta\<close>, and it is the grid
  of every generator the constructor returns for these arguments.
\<close>

theorem energy_grid_points:
  assumes "omega_min < omega_max" and "0 < omega_delta"
    and "double_quotient omega_min omega_max omega_delta = Some q"
    and "q < 2147483648"
  shows "\<exists>grid. energy_grid omega_min omega_max omega_delta = Inr grid
     \<and> length grid = nat \<lfloor>q\<rfloor>
     \<and> (\<forall>i < length grid. grid ! i = omega_min + real i * omega_delta)
     \<and> (\<forall>g c s process r_max gen.
           AxionMCGenerator_new g c s process omega_min omega_max omega_delta r_max = Inr gen
             \<longrightarrow> inv_cdf_data_erg gen = grid)"
proof -
  have "0 \<le> q"
    using assms(1,2,3) by (rule double_quotient_nonneg)
  with assms(3) have grid: "energy_grid omega_min omega_max omega_delta =
     Inr (map (\<lambda>i. omega_min + real i * omega_delta) [0..<nat \<lfloor>q\<rfloor>])"
    using assms(4) by (rule energy_grid_uniform)
  show ?thesis
    unfolding grid
    by (auto simp: AxionMCGenerator_new_def grid Let_def split_beta split: if_splits)
qed

theorem energy_grid_points_witness:
  "(0::real) < 1 \<and> (0::real) < 1 / 4 \<and> double_quotient 0 1 (1 / 4) = Some 4
   \<and> (4::real) < 2147483648
   \<and> energy_grid 0 1 (1 / 4) = Inr [0, 1 / 4, 1 / 2, 3 / 4]
   \<and> length [0, 1 / 4, 1 / 2, 3 / 4 :: real] = nat \<lfloor>4 :: real\<rfloor>"
  using energy_grid_points [of 0 1 "1 / 4" 4] double_quotient_values(1)
  by (simp add: energy_grid_def double_to_int_def upt_rec)

text \<open>
  C7, as stated, fails in two ways. Where the quotient does not fit an \<^verbatim>\<open>int\<close>: for the
  range \<open>[0, 2\<^sup>3\<^sup>1]\<close> with step 1 the conversion \<^verbatim>\<open>int(2147483648.0)\<close> is undefined and
  no grid of \<open>2\<^sup>3\<^sup>1\<close> points is built. And where the rounding of the quotient crosses an
  integer: for the range \<open>[0, 1]\<close> with the \<^verbatim>\<open>double\<close> \<^verbatim>\<open>0.1\<close> as step, the quotient
  rounds to 10 and the grid has 10 points, while the floor of the exact quotient is 9.
\<close>

theorem energy_grid_count_counterexample:
  "(0::real) < 2147483648 \<and> (0::real) < 1
   \<and> energy_grid 0 2147483648 1 = Inl UndefinedBehaviour
   \<and> AxionMCGenerator_new unit_gsl unit_constants unit_model Gamma_P_Primakoff 0 2147483648 1 1
       = Inl UndefinedBehaviour
   \<and> (0::real) < double_tenth
   \<and> energy_grid 0 1 double_tenth = Inr (map (\<lambda>i. 0 + real i * double_tenth) [0..<10])
   \<and> nat \<lfloor>(1 - 0) / double_tenth\<rfloor> = 9"
  by (simp add: energy_grid_def double_quotient_values double_to_int_def
        AxionMCGenerator_new_def)
    (simp add: double_tenth_def)

text \<open>
  Likewise for the range \<open>[0, 0.3]\<close> with step \<open>0.1\<close>, both written as \<^verbatim>\<open>double\<close>
  literals: the quotient of the two doubles rounds to the \<^verbatim>\<open>double\<close> just below 3 and
  the grid has 2 points, while the quotient of the decimals is 3.
\<close>

lemma double_quotient_three_tenths:
  "double_quotient 0 (5404319552844595 / 18014398509481984) double_tenth
     = Some (6755399441055743 / 2251799813685248)"
proof -
  have a: "round_to_double (5404319552844595 / 18014398509481984)
      = Some (5404319552844595 / 18014398509481984)"
    using round_to_double_eval [of "- 2" "5404319552844595 / 18014398509481984"]
    by (simp add: round_half_even_def Let_def)
  have b: "round_to_double (5404319552844595 / 18014398509481984 / double_tenth)
      = Some (6755399441055743 / 2251799813685248)"
    using round_to_double_eval [of 1 "5404319552844595 / 18014398509481984 / double_tenth"]
    by (simp add: round_half_even_def Let_def double_tenth_def)
  have c: "double_tenth \<noteq> 0"
    by (simp add: double_tenth_def)
  show ?thesis
    unfolding double_quotient_def
    by (simp only: diff_zero a b c option.case if_False)
qed

lemma energy_grid_three_tenths:
  "energy_grid 0 (5404319552844595 / 18014398509481984) double_tenth =
     Inr (map (\<lambda>i. 0 + real i * double_tenth) [0..<2])
   \<and> nat \<lfloor>(3 / 10 - 0) / (1 / 10 :: real)\<rfloor> = 3"
  by (simp add: energy_grid_def double_quotient_three_tenths double_to_int_def)





text \<open>
  The constructor returns a generator whenever the rounded quotient is at least one and
  fits an \<^verbatim>\<open>int\<close>.
\<close>

lemma AxionMCGenerator_new_returns:
  assumes "double_quotient omega_min omega_max omega_delta = Some q"
    and "1 \<le> q" and "q < 2147483648"
  shows "\<exists>gen. AxionMCGenerator_new g c s process omega_min omega_max omega_delta r_max = Inr gen"
proof -
  have "0 \<le> q"
    using assms(2) by simp
  with assms(1) have grid: "energy_grid omega_min omega_max omega_delta =
     Inr (map (\<lambda>i. omega_min + real i * omega_delta) [0..<nat \<lfloor>q\<rfloor>])"
    using assms(3) by (rule energy_grid_uniform)
  have "1 \<le> \<lfloor>q\<rfloor>"
    using assms(2) by (simp add: le_floor_iff)
  then have "0 < nat \<lfloor>q\<rfloor>"
    by simp
  then show ?thesis
    by (simp add: AxionMCGenerator_new_def grid Let_def split_beta)
qed




end
